theory Spec2Isabelle
  imports Complex_Main
begin

section \<open>A Naive Bayes spam filter (naive\_bayes.py)\<close>

text \<open>
  The development follows the class \<open>NaiveBayes\<close> of \<open>naive_bayes.py\<close> method by method:
  \<open>load_data\<close>, \<open>word_set\<close>, \<open>fit\<close> (with its local function \<open>get_counts\<close>),
  \<open>predict\<close> and \<open>accuracy\<close>.

  Conventions of the embedding.
  \<^item> A Python \<open>str\<close> is a \<open>string\<close>; one \<open>char\<close> stands for one character of the text
    that \<open>f.read()\<close> returns.
  \<^item> A Python \<open>set\<close> of words is a duplicate-free list of its elements. Python leaves the
    iteration order of a set open; every result below is stated about the elements of the
    list only, and the counting loop of \<open>fit\<close> is shown not to depend on the order.
  \<^item> A Python \<open>dict\<close> from words to counts is a map \<open>string \<rightharpoonup> nat\<close>. The counters of the
    object (\<open>num_train_hams\<close>, \<open>num_train_spams\<close> and the values of both dictionaries)
    only ever hold \<open>0\<close>, a \<open>len(...)\<close> or a count that started at \<open>1\<close> and was
    incremented, so they are natural numbers.
  \<^item> An exception is a value \<open>Inl e\<close> of a sum type.
  \<^item> Floating-point numbers are idealised: a finite double is a real number, sums and
    logarithms are exact, and the two special values that \<open>np.log\<close> produces (\<open>-inf\<close> at
    \<open>0\<close>, \<open>nan\<close> below \<open>0\<close>) are kept as values of their own. Rounding and overflow are
    not modelled. The program adds rounded doubles in the iteration order of the set, so
    where two finite scores are compared its label can differ from the one of the exact
    sums (on an exact tie, for one). The results about \<open>predict\<close> below are therefore
    limited to what rounding cannot change: the error raised before any arithmetic (C4),
    the comparison of \<open>-inf\<close> with a finite score (C10), and statements relative to
    whatever \<open>predict\<close> returns (C5). The formula of the scores and the decision between
    two finite scores (C1) are not stated here.
\<close>

subsection \<open>Errors and the outside world\<close>

datatype error =
    AssertionError        \<comment> \<open>a failed \<open>assert\<close>\<close>
  | OSError               \<comment> \<open>\<open>open\<close>, \<open>read\<close> or \<open>os.listdir\<close> failed\<close>
  | ZeroDivisionError     \<comment> \<open>\<open>/\<close> with a zero divisor\<close>

text \<open>
  The files: \<open>files name\<close> is the text that \<open>open(name, 'r').read()\<close> returns (the
  decoded characters, after the newline translation of Python's text mode), or an error
  when the file cannot be opened or read.
\<close>

type_synonym files = "string \<Rightarrow> error + string"

definition readable :: "files \<Rightarrow> string \<Rightarrow> bool" where
  "readable files name = (\<exists>text. files name = Inr text)"

subsection \<open>\<open>word_set\<close>\<close>

text \<open>\<open>text.replace(old, new)\<close> for a single character \<open>old\<close>.\<close>

definition replace :: "char \<Rightarrow> string \<Rightarrow> string \<Rightarrow> string" where
  "replace old new text = concat (map (\<lambda>c. if c = old then new else [c]) text)"

text \<open>
  \<open>text.split(sep)\<close> for a single character \<open>sep\<close>: the text is cut at every occurrence
  of \<open>sep\<close>; the pieces between two neighbouring separators, before a leading one and after
  a trailing one are empty strings, and the empty text gives \<open>['']\<close>.
\<close>

fun split :: "char \<Rightarrow> string \<Rightarrow> string list" where
  "split sep [] = [[]]"
| "split sep (c # cs) =
     (if c = sep then [] # split sep cs
      else (case split sep cs of
              w # ws \<Rightarrow> (c # w) # ws
            | [] \<Rightarrow> [[c]]))"

text \<open>The body of the \<open>with\<close> block of \<open>word_set\<close>, on the text read.\<close>

definition words_of :: "string \<Rightarrow> string list" where
  "words_of content =
     (let text = drop 9 content;
          text = replace (CHR 0x0D) [] text;
          text = replace (CHR 0x0A) '' '' text;
          words = split (CHR '' '') text
      in remdups words)"

definition word_set :: "files \<Rightarrow> string \<Rightarrow> error + string list" where
  "word_set files filename =
     (case files filename of
        Inl e \<Rightarrow> Inl e
      | Inr content \<Rightarrow> Inr (words_of content))"

subsection \<open>The classifier object\<close>

type_synonym word_counts = "string \<rightharpoonup> nat"

record classifier =
  num_train_hams :: nat
  num_train_spams :: nat
  word_counts_spam :: word_counts
  word_counts_ham :: word_counts

text \<open>The two labels are attributes set once by \<open>__init__\<close> and never assigned again.\<close>

definition HAM_LABEL :: string where
  "HAM_LABEL = ''ham''"

definition SPAM_LABEL :: string where
  "SPAM_LABEL = ''spam''"

text \<open>\<open>__init__\<close>: the object as \<open>NaiveBayes()\<close> creates it.\<close>

definition NaiveBayes :: classifier where
  "NaiveBayes =
     \<lparr>num_train_hams = 0, num_train_spams = 0,
      word_counts_spam = Map.empty, word_counts_ham = Map.empty\<rparr>"

subsection \<open>\<open>load_data\<close>\<close>

text \<open>
  The directories: \<open>listdir dir\<close> is the list of names that \<open>os.listdir(dir)\<close> returns, or
  an error when \<open>dir\<close> is missing, is not a directory or may not be read. The directories
  do not change while \<open>load_data\<close> runs.
\<close>

type_synonym dirs = "string \<Rightarrow> error + string list"

text \<open>\<open>os.path.join(a, *p)\<close> as \<open>posixpath\<close> defines it: a component that starts with
  a slash replaces what came before, otherwise it is appended after exactly one slash.\<close>

definition join_step :: "string \<Rightarrow> string \<Rightarrow> string" where
  "join_step path b =
     (if take 1 b = ''/'' then b
      else if path = [] \<or> last path = CHR ''/'' then path @ b
      else path @ ''/'' @ b)"

definition path_join :: "string \<Rightarrow> string list \<Rightarrow> string" where
  "path_join a p = foldl join_step a p"

text \<open>
  The three \<open>assert\<close>s come first, in the order \<open>path\<close>, \<open>test\<close>, \<open>train\<close>; then the four
  loops, each appending the joined path of every name listed. (Python run with \<open>-O\<close> drops
  the \<open>assert\<close>s; the model is the program run as it is written.)
\<close>

definition load_data ::
  "dirs \<Rightarrow> string \<Rightarrow> error + (string list \<times> string list \<times> string list \<times> string list)" where
  "load_data listdir path =
     (case listdir path of Inl e \<Rightarrow> Inl e | Inr in_root \<Rightarrow>
      if set in_root \<noteq> set [''test'', ''train''] then Inl AssertionError else
      case listdir (path_join path [''test'']) of Inl e \<Rightarrow> Inl e | Inr in_test \<Rightarrow>
      if set in_test \<noteq> set [''ham'', ''spam''] then Inl AssertionError else
      case listdir (path_join path [''train'']) of Inl e \<Rightarrow> Inl e | Inr in_train \<Rightarrow>
      if set in_train \<noteq> set [''ham'', ''spam''] then Inl AssertionError else
      case listdir (path_join path [''train'', ''ham'']) of Inl e \<Rightarrow> Inl e | Inr names1 \<Rightarrow>
      let train_hams = map (\<lambda>filename. path_join path [''train'', ''ham'', filename]) names1 in
      case listdir (path_join path [''train'', ''spam'']) of Inl e \<Rightarrow> Inl e | Inr names2 \<Rightarrow>
      let train_spams = map (\<lambda>filename. path_join path [''train'', ''spam'', filename]) names2 in
      case listdir (path_join path [''test'', ''ham'']) of Inl e \<Rightarrow> Inl e | Inr names3 \<Rightarrow>
      let test_hams = map (\<lambda>filename. path_join path [''test'', ''ham'', filename]) names3 in
      case listdir (path_join path [''test'', ''spam'']) of Inl e \<Rightarrow> Inl e | Inr names4 \<Rightarrow>
      let test_spams = map (\<lambda>filename. path_join path [''test'', ''spam'', filename]) names4 in
      Inr (train_hams, train_spams, test_hams, test_spams))"

subsection \<open>\<open>fit\<close>\<close>

text \<open>The body of the inner loop of \<open>get_counts\<close>, for one word.\<close>

definition count_word :: "string \<Rightarrow> word_counts \<Rightarrow> word_counts" where
  "count_word word dict1 =
     (case dict1 word of
        Some n \<Rightarrow> dict1(word \<mapsto> n + 1)
      | None \<Rightarrow> dict1(word \<mapsto> 1))"

text \<open>The outer loop of \<open>get_counts\<close>: a file that cannot be read ends it with the error.\<close>

fun get_counts_loop :: "files \<Rightarrow> string list \<Rightarrow> word_counts \<Rightarrow> error + word_counts" where
  "get_counts_loop files [] dict1 = Inr dict1"
| "get_counts_loop files (file # filenames) dict1 =
     (case word_set files file of
        Inl e \<Rightarrow> Inl e
      | Inr set1 \<Rightarrow> get_counts_loop files filenames (fold count_word set1 dict1))"

definition get_counts :: "files \<Rightarrow> string list \<Rightarrow> error + word_counts" where
  "get_counts files filenames = get_counts_loop files filenames Map.empty"

text \<open>
  \<open>fit\<close> assigns the four attributes one after the other; an exception leaves the object
  with the assignments made so far, so the object is returned in every case.
\<close>

definition fit ::
  "files \<Rightarrow> classifier \<Rightarrow> string list \<Rightarrow> string list \<Rightarrow> (error + unit) \<times> classifier" where
  "fit files self train_hams train_spams =
     (let self = self\<lparr>num_train_hams := length train_hams\<rparr>;
          self = self\<lparr>num_train_spams := length train_spams\<rparr>
      in case get_counts files train_spams of
           Inl e \<Rightarrow> (Inl e, self)
         | Inr counts_spam \<Rightarrow>
             let self = self\<lparr>word_counts_spam := counts_spam\<rparr>
             in case get_counts files train_hams of
                  Inl e \<Rightarrow> (Inl e, self)
                | Inr counts_ham \<Rightarrow> (Inr (), self\<lparr>word_counts_ham := counts_ham\<rparr>))"

subsection \<open>\<open>predict\<close>\<close>

text \<open>The values of the log scores: a finite number, \<open>-inf\<close> or \<open>nan\<close>.\<close>

datatype score = NaN | NegInf | Fin real

text \<open>\<open>np.log\<close>: \<open>-inf\<close> at zero and \<open>nan\<close> below, both with a warning and no exception.\<close>

definition np_log :: "real \<Rightarrow> score" where
  "np_log x = (if x < 0 then NaN else if x = 0 then NegInf else Fin (ln x))"

text \<open>Addition and \<open>>\<close> on scores: \<open>nan\<close> absorbs every sum and compares false with
  everything, \<open>-inf\<close> absorbs finite numbers and lies below them.\<close>

fun add :: "score \<Rightarrow> score \<Rightarrow> score" where
  "add NaN y = NaN"
| "add x NaN = NaN"
| "add NegInf y = NegInf"
| "add x NegInf = NegInf"
| "add (Fin a) (Fin b) = Fin (a + b)"

fun greater :: "score \<Rightarrow> score \<Rightarrow> bool" where
  "greater (Fin a) (Fin b) = (a > b)"
| "greater (Fin a) NegInf = True"
| "greater x y = False"

text \<open>\<open>dict.get(key, default)\<close>.\<close>

definition get :: "word_counts \<Rightarrow> string \<Rightarrow> nat \<Rightarrow> nat" where
  "get dict key dflt = (case dict key of Some v \<Rightarrow> v | None \<Rightarrow> dflt)"

text \<open>
  The two priors are computed first, so a classifier without training documents raises
  \<open>ZeroDivisionError\<close> before the file is opened. Both sums start at the integer \<open>0\<close>.
\<close>

definition predict :: "files \<Rightarrow> classifier \<Rightarrow> string \<Rightarrow> error + string" where
  "predict files self filename =
     (if num_train_hams self + num_train_spams self = 0 then Inl ZeroDivisionError else
      let p_ham = real (num_train_hams self) / real (num_train_hams self + num_train_spams self);
          p_spam = real (num_train_spams self) / real (num_train_hams self + num_train_spams self)
      in case word_set files filename of
           Inl e \<Rightarrow> Inl e
         | Inr set2 \<Rightarrow>
             let spam_sum = fold (\<lambda>word spam_sum. add spam_sum
                    (np_log (real (get (word_counts_spam self) word 0 + 1) /
                             real (num_train_spams self + 2)))) set2 (Fin 0);
                 ham_sum = fold (\<lambda>word ham_sum. add ham_sum
                    (np_log (real (get (word_counts_ham self) word 0 + 1) /
                             real (num_train_hams self + 2)))) set2 (Fin 0);
                 spam_sum = add spam_sum (np_log p_spam);
                 ham_sum = add ham_sum (np_log p_ham)
             in if greater spam_sum ham_sum then Inr SPAM_LABEL else Inr HAM_LABEL)"

subsection \<open>\<open>accuracy\<close>\<close>

text \<open>One of the two loops of \<open>accuracy\<close>: the files of one label, the counter passed
  through.\<close>

fun count_correct ::
  "files \<Rightarrow> classifier \<Rightarrow> string \<Rightarrow> string list \<Rightarrow> nat \<Rightarrow> error + nat" where
  "count_correct files self label [] total_correct = Inr total_correct"
| "count_correct files self label (filename # filenames) total_correct =
     (case predict files self filename of
        Inl e \<Rightarrow> Inl e
      | Inr l \<Rightarrow> count_correct files self label filenames
                 (if l = label then total_correct + 1 else total_correct))"

definition accuracy :: "files \<Rightarrow> classifier \<Rightarrow> string list \<Rightarrow> string list \<Rightarrow> error + real" where
  "accuracy files self hams spams =
     (let total_correct = 0;
          total_datapoints = length hams + length spams
      in case count_correct files self HAM_LABEL hams total_correct of
           Inl e \<Rightarrow> Inl e
         | Inr total_correct \<Rightarrow>
             (case count_correct files self SPAM_LABEL spams total_correct of
                Inl e \<Rightarrow> Inl e
              | Inr total_correct \<Rightarrow>
                  if total_datapoints = 0 then Inl ZeroDivisionError
                  else Inr (real total_correct / real total_datapoints)))"

subsection \<open>What splitting means\<close>

text \<open>\<open>sep.join(ws)\<close>, the inverse of splitting.\<close>

fun join :: "char \<Rightarrow> string list \<Rightarrow> string" where
  "join sep [] = []"
| "join sep [w] = w"
| "join sep (w # v # ws) = w @ sep # join sep (v # ws)"

text \<open>
  \<open>ws\<close> are the pieces of \<open>text\<close> between the separators: there is at least one piece,
  no piece holds a separator, and the pieces joined by separators are the text again.
\<close>

definition pieces :: "char \<Rightarrow> string \<Rightarrow> string list \<Rightarrow> bool" where
  "pieces sep text ws =
     (ws \<noteq> [] \<and> list_all (\<lambda>w. sep \<notin> set w) ws \<and> join sep ws = text)"

text \<open>The text of the specification: header dropped, carriage returns deleted, newlines
  turned into spaces.\<close>

definition normalised :: "string \<Rightarrow> string" where
  "normalised content =
     map (\<lambda>c. if c = CHR 0x0A then CHR '' '' else c)
       (filter (\<lambda>c. c \<noteq> CHR 0x0D) (drop 9 content))"

subsection \<open>Document frequencies\<close>

text \<open>
  What the specification says the frequency table of a label holds: for a token, the number
  of documents of the collection whose token set contains it, and no entry when that
  number is zero. A document given twice counts twice.
\<close>

definition contains :: "files \<Rightarrow> string \<Rightarrow> string \<Rightarrow> bool" where
  "contains files t filename =
     (case word_set files filename of Inr words \<Rightarrow> t \<in> set words | Inl e \<Rightarrow> False)"

definition documents_with :: "files \<Rightarrow> string list \<Rightarrow> string \<Rightarrow> nat" where
  "documents_with files filenames t = length (filter (contains files t) filenames)"

definition frequency_table :: "files \<Rightarrow> string list \<Rightarrow> word_counts" where
  "frequency_table files filenames t =
     (if documents_with files filenames t = 0 then None
      else Some (documents_with files filenames t))"

subsection \<open>Log scores\<close>

text \<open>
  The score of a label in exact arithmetic: the logarithm of the prior plus, for every
  distinct token of the document, the logarithm of the smoothed presence probability of
  the token, the count of a token without an entry being \<open>0\<close>. For a label without
  training documents the prior is \<open>0\<close> and the score is \<open>-inf\<close>.
\<close>

definition log_likelihood :: "nat \<Rightarrow> nat \<Rightarrow> word_counts \<Rightarrow> string set \<Rightarrow> real" where
  "log_likelihood n_L N table tokens =
     ln (real n_L / real N) +
     (\<Sum>t \<in> tokens. ln (real ((case table t of Some c \<Rightarrow> c | None \<Rightarrow> 0) + 1) / real (n_L + 2)))"

definition log_score :: "nat \<Rightarrow> nat \<Rightarrow> word_counts \<Rightarrow> string set \<Rightarrow> score" where
  "log_score n_L N table tokens =
     (if n_L = 0 then NegInf else Fin (log_likelihood n_L N table tokens))"

subsection \<open>Correct predictions\<close>

text \<open>The number of documents of the two collections whose prediction is their true
  label: ham for the first collection, spam for the second.\<close>

definition matches :: "files \<Rightarrow> classifier \<Rightarrow> string list \<Rightarrow> string list \<Rightarrow> nat" where
  "matches files self hams spams =
     length (filter (\<lambda>filename. predict files self filename = Inr HAM_LABEL) hams) +
     length (filter (\<lambda>filename. predict files self filename = Inr SPAM_LABEL) spams)"

subsection \<open>The layout of the corpus\<close>

text \<open>
  A location holds exactly the expected names when it can be listed and the names listed
  are the expected ones, no more and no fewer; it holds other names when it can be listed
  and the names differ.
\<close>

definition names_are :: "dirs \<Rightarrow> string \<Rightarrow> string list \<Rightarrow> bool" where
  "names_are listdir dir expected =
     (case listdir dir of Inr names \<Rightarrow> set names = set expected | Inl e \<Rightarrow> False)"

definition other_names :: "dirs \<Rightarrow> string \<Rightarrow> string list \<Rightarrow> bool" where
  "other_names listdir dir expected =
     (case listdir dir of Inr names \<Rightarrow> set names \<noteq> set expected | Inl e \<Rightarrow> False)"

definition listable :: "dirs \<Rightarrow> string \<Rightarrow> bool" where
  "listable listdir dir = (case listdir dir of Inr names \<Rightarrow> True | Inl e \<Rightarrow> False)"

text \<open>
  The layout of the specification: the root holds exactly the groups \<open>train\<close> and
  \<open>test\<close>, each of them holds exactly the subgroups \<open>ham\<close> and \<open>spam\<close>, and each
  subgroup is a collection that can be listed.
\<close>

definition corpus_layout :: "dirs \<Rightarrow> string \<Rightarrow> bool" where
  "corpus_layout listdir path =
     (names_are listdir path [''train'', ''test''] \<and>
      names_are listdir (path_join path [''train'']) [''ham'', ''spam''] \<and>
      names_are listdir (path_join path [''test'']) [''ham'', ''spam''] \<and>
      listable listdir (path_join path [''train'', ''ham'']) \<and>
      listable listdir (path_join path [''train'', ''spam'']) \<and>
      listable listdir (path_join path [''test'', ''ham'']) \<and>
      listable listdir (path_join path [''test'', ''spam'']))"

text \<open>The three groups of names are the expected ones: the first three checks pass.\<close>

definition groups_match :: "dirs \<Rightarrow> string \<Rightarrow> bool" where
  "groups_match listdir path =
     (names_are listdir path [''train'', ''test''] \<and>
      names_are listdir (path_join path [''test'']) [''ham'', ''spam''] \<and>
      names_are listdir (path_join path [''train'']) [''ham'', ''spam''])"

text \<open>The identifiers of the documents of one subgroup: the path of every name listed.\<close>

definition documents_in :: "dirs \<Rightarrow> string \<Rightarrow> string \<Rightarrow> string \<Rightarrow> string list" where
  "documents_in listdir path part label =
     (case listdir (path_join path [part, label]) of
        Inr names \<Rightarrow> map (\<lambda>filename. path_join path [part, label, filename]) names
      | Inl e \<Rightarrow> [])"

subsection \<open>A small corpus\<close>

text \<open>One ham, one spam and one new document, and two documents that are a header and
  the letter \<open>X\<close>, without and with the space after the colon; every other name cannot be
  opened.\<close>

definition example_files :: files where
  "example_files name =
     (if name = ''ham1'' then Inr ''Subject: meeting today''
      else if name = ''spam1'' then Inr ''Subject: free money''
      else if name = ''new1'' then Inr ''Subject: unknown_word''
      else if name = ''header8'' then Inr ''Subject:X''
      else if name = ''header9'' then Inr ''Subject: X''
      else Inl OSError)"

text \<open>The directories of the corpus above, and the same with a third group in the
  root.\<close>

definition example_dirs :: dirs where
  "example_dirs dir =
     (if dir = ''data/'' then Inr [''train'', ''test'']
      else if dir = ''data/train'' then Inr [''spam'', ''ham'']
      else if dir = ''data/test'' then Inr [''ham'', ''spam'']
      else if dir = ''data/train/ham'' then Inr [''ham1'']
      else if dir = ''data/train/spam'' then Inr [''spam1'']
      else if dir = ''data/test/ham'' then Inr []
      else if dir = ''data/test/spam'' then Inr [''new1'']
      else Inl OSError)"

definition extra_group_dirs :: dirs where
  "extra_group_dirs dir =
     (if dir = ''data/'' then Inr [''train'', ''test'', ''notes''] else example_dirs dir)"

text \<open>The same directories with the subgroup \<open>spam\<close> missing from \<open>test\<close>, and with a
  third subgroup in \<open>train\<close>.\<close>

definition missing_subgroup_dirs :: dirs where
  "missing_subgroup_dirs dir =
     (if dir = ''data/test'' then Inr [''ham''] else example_dirs dir)"

definition extra_subgroup_dirs :: dirs where
  "extra_subgroup_dirs dir =
     (if dir = ''data/train'' then Inr [''ham'', ''spam'', ''old''] else example_dirs dir)"

text \<open>No directory at all, and the directories above with a plain file in the place of
  the group \<open>train\<close>: the root lists the name, the group cannot be listed.\<close>

definition missing_root_dirs :: dirs where
  "missing_root_dirs dir = Inl OSError"

definition file_group_dirs :: dirs where
  "file_group_dirs dir = (if dir = ''data/train'' then Inl OSError else example_dirs dir)"

text \<open>Given directories with one more location that cannot be listed.\<close>

definition unlistable_at :: "string \<Rightarrow> dirs \<Rightarrow> dirs" where
  "unlistable_at location listdir dir = (if dir = location then Inl OSError else listdir dir)"

subsection \<open>Facts about \<open>split\<close> and \<open>replace\<close>\<close>

lemma split_not_Nil: "split sep s \<noteq> []"
  by (induction s) (auto split: list.splits)

lemma split_no_sep: "w \<in> set (split sep s) \<Longrightarrow> sep \<notin> set w"
proof (induction s arbitrary: w)
  case Nil
  then show ?case by simp
next
  case (Cons c cs)
  show ?case
  proof (cases "c = sep")
    case True
    with Cons show ?thesis by auto
  next
    case False
    obtain v vs where vs: "split sep cs = v # vs"
      using split_not_Nil [of sep cs] by (cases "split sep cs") auto
    with False Cons.prems have "w = c # v \<or> w \<in> set vs" by auto
    then show ?thesis
    proof
      assume "w = c # v"
      moreover have "sep \<notin> set v" using Cons.IH [of v] vs by simp
      ultimately show ?thesis using False by auto
    next
      assume "w \<in> set vs"
      then show ?thesis using Cons.IH [of w] vs by simp
    qed
  qed
qed

lemma join_Cons_Cons: "ws \<noteq> [] \<Longrightarrow> join sep (w # ws) = w @ sep # join sep ws"
  by (cases ws) auto

lemma join_split: "join sep (split sep s) = s"
proof (induction s)
  case Nil
  then show ?case by simp
next
  case (Cons c cs)
  obtain v vs where vs: "split sep cs = v # vs"
    using split_not_Nil [of sep cs] by (cases "split sep cs") auto
  show ?case
  proof (cases "c = sep")
    case True
    then show ?thesis using Cons split_not_Nil [of sep cs] by (simp add: join_Cons_Cons)
  next
    case False
    have "join sep ((c # v) # vs) = c # join sep (v # vs)"
      by (cases vs) auto
    then show ?thesis using False vs Cons by simp
  qed
qed

lemma split_no_sep_text: "sep \<notin> set w \<Longrightarrow> split sep w = [w]"
  by (induction w) auto

lemma split_append_sep:
  "sep \<notin> set w \<Longrightarrow> split sep (w @ sep # rest) = w # split sep rest"
  by (induction w) auto

lemma split_join:
  "ws \<noteq> [] \<Longrightarrow> list_all (\<lambda>w. sep \<notin> set w) ws \<Longrightarrow> split sep (join sep ws) = ws"
proof (induction sep ws rule: join.induct)
  case (1 sep)
  then show ?case by simp
next
  case (2 sep w)
  then show ?case by (simp add: split_no_sep_text)
next
  case (3 sep w v ws)
  then show ?case by (simp add: split_append_sep)
qed

lemma pieces_split: "pieces sep s (split sep s)"
  using split_no_sep [of _ sep s]
  by (auto simp: pieces_def split_not_Nil join_split list_all_iff)

lemma pieces_unique: "pieces sep text ws \<Longrightarrow> ws = split sep text"
  using split_join [of ws sep] by (auto simp: pieces_def)

lemma replace_delete: "replace old [] s = filter (\<lambda>c. c \<noteq> old) s"
  by (induction s) (auto simp: replace_def)

lemma replace_char: "replace old [new] s = map (\<lambda>c. if c = old then new else c) s"
  by (induction s) (auto simp: replace_def)

lemma words_of_normalised: "words_of content = remdups (split (CHR '' '') (normalised content))"
  by (simp add: words_of_def normalised_def replace_delete replace_char)

lemma distinct_words_of: "distinct (words_of content)"
  by (simp add: words_of_normalised)

subsection \<open>The tokenizer\<close>

text \<open>
  C3. For every text, \<open>word_set\<close> returns a collection without duplicates whose elements
  are exactly the pieces obtained by dropping the first 9 characters, deleting every
  carriage return, turning every newline into a space and cutting at every single space.
  The pieces are determined by the text, and every one of them is an element of the result,
  the empty ones (between consecutive spaces, before a leading and after a trailing space)
  included: nothing is filtered out.
\<close>

theorem word_set_pieces:
  "files filename = Inr content \<Longrightarrow>
     (\<exists>words ws. word_set files filename = Inr words \<and> distinct words \<and>
        pieces (CHR '' '') (normalised content) ws \<and> set words = set ws) \<and>
     (\<forall>words ws. word_set files filename = Inr words \<longrightarrow>
        pieces (CHR '' '') (normalised content) ws \<longrightarrow>
        set words = set ws \<and> ([] \<in> set ws \<longrightarrow> [] \<in> set words))"
proof (intro conjI allI impI)
  assume r: "files filename = Inr content"
  show "\<exists>words ws. word_set files filename = Inr words \<and> distinct words \<and>
        pieces (CHR '' '') (normalised content) ws \<and> set words = set ws"
    using r pieces_split [of "CHR '' ''" "normalised content"]
    by (intro exI [of _ "words_of content"] exI [of _ "split (CHR '' '') (normalised content)"])
      (simp add: word_set_def distinct_words_of words_of_normalised)
next
  fix words ws
  assume r: "files filename = Inr content"
    and w: "word_set files filename = Inr words"
    and p: "pieces (CHR '' '') (normalised content) ws"
  have "ws = split (CHR '' '') (normalised content)" using p by (rule pieces_unique)
  moreover have "words = words_of content" using r w by (simp add: word_set_def)
  ultimately show "set words = set ws" by (simp add: words_of_normalised)
  then show "[] \<in> set ws \<Longrightarrow> [] \<in> set words" by simp
qed

theorem word_set_pieces_witness:
  "(\<lambda>_. Inr ''Subject: a  a'') ''mail'' = (Inr ''Subject: a  a'' :: error + string) \<and>
   word_set (\<lambda>_. Inr ''Subject: a  a'') ''mail'' = Inr ['''', ''a''] \<and>
   pieces (CHR '' '') (normalised ''Subject: a  a'') [''a'', '''', ''a''] \<and>
   set ['''', ''a''] = set [''a'', '''', ''a''] \<and>
   [] \<in> set [''a'', [], ''a''] \<and> [] \<in> set ['''', ''a'']"
proof -
  define F :: files where "F = (\<lambda>_. Inr ''Subject: a  a'')"
  have r: "F ''mail'' = Inr ''Subject: a  a''"
    by (simp add: F_def)
  have w: "word_set F ''mail'' = Inr ['''', ''a'']"
    by (simp add: F_def word_set_def words_of_def replace_def)
  have p: "pieces (CHR '' '') (normalised ''Subject: a  a'') [''a'', '''', ''a'']"
    by (simp add: pieces_def normalised_def)
  note c = word_set_pieces [of F "''mail''", OF r, THEN conjunct2, rule_format, OF w p]
  have e: "[] \<in> set [''a'', [], ''a'']" by simp
  from r w p c [THEN conjunct1] e c [THEN conjunct2, rule_format, OF e] show ?thesis
    unfolding F_def by (intro conjI)
qed


subsection \<open>Training\<close>

lemma count_word_apply:
  "count_word word dict1 w = (if w = word then Some (get dict1 w 0 + 1) else dict1 w)"
  by (simp add: count_word_def get_def split: option.splits)

lemma fold_count_word:
  "distinct ws \<Longrightarrow>
   fold count_word ws dict1 w = (if w \<in> set ws then Some (get dict1 w 0 + 1) else dict1 w)"
proof (induction ws arbitrary: dict1)
  case Nil
  then show ?case by simp
next
  case (Cons a ws)
  then show ?case
    by (auto simp: count_word_apply get_def)
qed

lemma fold_count_word_order:
  "distinct ws \<Longrightarrow> distinct vs \<Longrightarrow> set ws = set vs \<Longrightarrow>
   fold count_word ws dict1 = fold count_word vs dict1"
  by (rule ext) (simp add: fold_count_word)

lemma get_counts_loop_readable:
  "\<forall>f \<in> set filenames. readable files f \<Longrightarrow>
   get_counts_loop files filenames dict1 =
     Inr (\<lambda>t. if documents_with files filenames t = 0 then dict1 t
               else Some (get dict1 t 0 + documents_with files filenames t))"
proof (induction filenames arbitrary: dict1)
  case Nil
  then show ?case by (simp add: documents_with_def)
next
  case (Cons name filenames)
  from Cons.prems obtain content where c: "files name = Inr content"
    by (auto simp: readable_def)
  have w: "word_set files name = Inr (words_of content)"
    using c by (simp add: word_set_def)
  have k: "contains files t name = (t \<in> set (words_of content))" for t
    by (simp add: contains_def w)
  have r: "\<forall>f \<in> set filenames. readable files f" using Cons.prems by simp
  show ?case
    unfolding get_counts_loop.simps w sum.case Cons.IH [OF r]
    by (rule arg_cong [where f=Inr], rule ext)
      (simp add: documents_with_def k fold_count_word distinct_words_of get_def)
qed

lemma get_counts_readable:
  "\<forall>f \<in> set filenames. readable files f \<Longrightarrow>
   get_counts files filenames = Inr (frequency_table files filenames)"
  unfolding get_counts_def
  by (subst get_counts_loop_readable) (auto simp: frequency_table_def get_def)

lemma documents_with_le: "documents_with files filenames t \<le> length filenames"
  by (simp add: documents_with_def)

lemma documents_with_pos:
  "0 < documents_with files filenames t \<longleftrightarrow> (\<exists>f \<in> set filenames. contains files t f)"
  by (auto simp: documents_with_def filter_empty_conv)


lemma fit_readable:
  assumes "\<forall>f \<in> set train_hams. readable files f"
    and "\<forall>f \<in> set train_spams. readable files f"
  shows "fit files self train_hams train_spams =
           (Inr (), \<lparr>num_train_hams = length train_hams,
                     num_train_spams = length train_spams,
                     word_counts_spam = frequency_table files train_spams,
                     word_counts_ham = frequency_table files train_hams\<rparr>)"
  by (simp add: fit_def get_counts_readable [OF assms(1)] get_counts_readable [OF assms(2)])

text \<open>
  C2. When every document of both collections can be read, \<open>fit\<close> completes and leaves
  the object with \<open>num_train_hams\<close> and \<open>num_train_spams\<close> equal to the sizes of the two
  collections and, for each label, a table that maps every token to the number of
  documents of that label's collection whose token set contains it, with no entry for a
  token that no document contains. The object before the call does not occur in the
  result: the earlier state is replaced, not added to.
\<close>

theorem fit_counts:
  assumes "\<forall>f \<in> set train_hams. readable files f"
    and "\<forall>f \<in> set train_spams. readable files f"
  shows "fit files self train_hams train_spams =
           (Inr (), \<lparr>num_train_hams = length train_hams,
                     num_train_spams = length train_spams,
                     word_counts_spam = frequency_table files train_spams,
                     word_counts_ham = frequency_table files train_hams\<rparr>)"
  by (simp add: fit_def get_counts_readable [OF assms(1)] get_counts_readable [OF assms(2)])

lemma example_readable:
  "readable example_files ''ham1''" "readable example_files ''spam1''"
  "readable example_files ''new1''"
  by (simp_all add: readable_def example_files_def)

lemma example_word_sets:
  "word_set example_files ''ham1'' = Inr [''meeting'', ''today'']"
  "word_set example_files ''spam1'' = Inr [''free'', ''money'']"
  "word_set example_files ''new1'' = Inr [''unknown_word'']"
  by (simp_all add: word_set_def example_files_def words_of_def replace_def)

theorem fit_counts_witness:
  "readable example_files ''ham1'' \<and> readable example_files ''spam1'' \<and>
   fit example_files NaiveBayes [''ham1''] [''spam1''] =
     (Inr (), \<lparr>num_train_hams = 1, num_train_spams = 1,
               word_counts_spam = frequency_table example_files [''spam1''],
               word_counts_ham = frequency_table example_files [''ham1'']\<rparr>) \<and>
   frequency_table example_files [''spam1''] ''free'' = Some 1 \<and>
   frequency_table example_files [''spam1''] ''meeting'' = None \<and>
   frequency_table example_files [''ham1''] ''meeting'' = Some 1"
proof -
  have h: "\<forall>f \<in> set [''ham1'']. readable example_files f"
    and s: "\<forall>f \<in> set [''spam1'']. readable example_files f"
    by (simp_all add: example_readable)
  have t: "frequency_table example_files [''spam1''] ''free'' = Some 1"
    "frequency_table example_files [''spam1''] ''meeting'' = None"
    "frequency_table example_files [''ham1''] ''meeting'' = Some 1"
    by (simp_all add: frequency_table_def documents_with_def contains_def example_word_sets)
  from fit_counts [OF h s, of NaiveBayes] example_readable t show ?thesis
    by simp
qed

lemma frequency_table_Some:
  "frequency_table files filenames t = Some n \<longleftrightarrow>
     n = documents_with files filenames t \<and> 0 < n"
  by (auto simp: frequency_table_def)

text \<open>
  C6. After \<open>fit\<close> on readable documents, every token of some spam document is a key of
  the spam table with a count between \<open>1\<close> and the number of spam documents, every key of
  the spam table has a count within these bounds, and the same holds for the ham table and
  the ham documents.
\<close>

theorem fit_count_bounds:
  assumes "\<forall>f \<in> set train_hams. readable files f"
    and "\<forall>f \<in> set train_spams. readable files f"
  shows "(\<forall>t. (\<exists>f \<in> set train_spams. contains files t f) \<longrightarrow>
            (\<exists>n. word_counts_spam (snd (fit files self train_hams train_spams)) t = Some n \<and>
                 1 \<le> n \<and> n \<le> length train_spams)) \<and>
         (\<forall>t n. word_counts_spam (snd (fit files self train_hams train_spams)) t = Some n \<longrightarrow>
            1 \<le> n \<and> n \<le> length train_spams) \<and>
         (\<forall>t. (\<exists>f \<in> set train_hams. contains files t f) \<longrightarrow>
            (\<exists>n. word_counts_ham (snd (fit files self train_hams train_spams)) t = Some n \<and>
                 1 \<le> n \<and> n \<le> length train_hams)) \<and>
         (\<forall>t n. word_counts_ham (snd (fit files self train_hams train_spams)) t = Some n \<longrightarrow>
            1 \<le> n \<and> n \<le> length train_hams)"
proof -
  have key: "(\<forall>t. (\<exists>f \<in> set fs. contains files t f) \<longrightarrow>
            (\<exists>n. frequency_table files fs t = Some n \<and> 1 \<le> n \<and> n \<le> length fs)) \<and>
         (\<forall>t n. frequency_table files fs t = Some n \<longrightarrow> 1 \<le> n \<and> n \<le> length fs)" for fs
  proof (intro conjI allI impI)
    fix t
    assume "\<exists>f \<in> set fs. contains files t f"
    then have "0 < documents_with files fs t" by (simp add: documents_with_pos)
    then show "\<exists>n. frequency_table files fs t = Some n \<and> 1 \<le> n \<and> n \<le> length fs"
      using documents_with_le [of files fs t] by (simp add: frequency_table_Some)
  next
    fix t n
    assume "frequency_table files fs t = Some n"
    then have "n = documents_with files fs t" "0 < n" by (simp_all add: frequency_table_Some)
    then show "1 \<le> n" "n \<le> length fs"
      using documents_with_le [of files fs t] by simp_all
  qed
  show ?thesis
    unfolding fit_readable [OF assms] snd_conv classifier.simps
    using key [of train_spams] key [of train_hams] by (intro conjI) blast+
qed

theorem fit_count_bounds_witness:
  "readable example_files ''ham1'' \<and> readable example_files ''spam1'' \<and>
   contains example_files ''free'' ''spam1'' \<and>
   contains example_files ''today'' ''ham1'' \<and>
   word_counts_spam (snd (fit example_files NaiveBayes [''ham1''] [''spam1''])) ''free'' = Some 1 \<and>
   word_counts_ham (snd (fit example_files NaiveBayes [''ham1''] [''spam1''])) ''today'' = Some 1 \<and>
   (1::nat) \<le> 1 \<and> 1 \<le> length [''spam1''] \<and> 1 \<le> length [''ham1'']"
proof -
  have h: "\<forall>f \<in> set [''ham1'']. readable example_files f"
    and s: "\<forall>f \<in> set [''spam1'']. readable example_files f"
    by (simp_all add: example_readable)
  have c: "\<exists>f \<in> set [''spam1'']. contains example_files ''free'' f"
    "\<exists>f \<in> set [''ham1'']. contains example_files ''today'' f"
    by (simp_all add: contains_def example_word_sets)
  note b = fit_count_bounds [OF h s, of NaiveBayes]
  from b c(1) obtain n where n: "word_counts_spam (snd (fit example_files NaiveBayes [''ham1''] [''spam1''])) ''free'' = Some n"
    "1 \<le> n" "n \<le> length [''spam1'']" by blast
  from b c(2) obtain m where m: "word_counts_ham (snd (fit example_files NaiveBayes [''ham1''] [''spam1''])) ''today'' = Some m"
    "1 \<le> m" "m \<le> length [''ham1'']" by blast
  from n m have "n = 1" "m = 1" by simp_all
  with n m example_readable c show ?thesis by simp
qed

subsection \<open>Prediction\<close>

lemma np_log_pos: "0 < x \<Longrightarrow> np_log x = Fin (ln x)"
  by (simp add: np_log_def)

lemma fold_add_np_log:
  "(\<And>w. 0 < f w) \<Longrightarrow>
   fold (\<lambda>word acc. add acc (np_log (f word))) ws (Fin a) = Fin (a + (\<Sum>w\<leftarrow>ws. ln (f w)))"
proof (induction ws arbitrary: a)
  case Nil
  then show ?case by simp
next
  case (Cons w ws)
  have "np_log (f w) = Fin (ln (f w))"
    using Cons.prems by (rule np_log_pos)
  then show ?case using Cons.prems by (simp add: Cons.IH add.assoc)
qed

lemma fold_add_np_log_set:
  assumes "distinct ws"
  shows "fold (\<lambda>word acc. add acc (np_log (real (get table word 0 + 1) / real (n + 2)))) ws (Fin 0) =
   Fin (\<Sum>w \<in> set ws. ln (real (get table w 0 + 1) / real (n + 2)))"
proof -
  have "0 < real (get table w 0 + 1) / real (n + 2)" for w
    by simp
  then have "fold (\<lambda>word acc. add acc (np_log (real (get table word 0 + 1) / real (n + 2)))) ws (Fin 0) =
      Fin (0 + (\<Sum>w\<leftarrow>ws. ln (real (get table w 0 + 1) / real (n + 2))))"
    by (rule fold_add_np_log)
  also have "(\<Sum>w\<leftarrow>ws. ln (real (get table w 0 + 1) / real (n + 2))) =
      (\<Sum>w \<in> set ws. ln (real (get table w 0 + 1) / real (n + 2)))"
    using assms by (rule sum_list_distinct_conv_sum_set)
  finally show ?thesis by simp
qed

lemma add_prior:
  "0 < N \<Longrightarrow> add (Fin (\<Sum>w \<in> tokens. ln (real (get table w 0 + 1) / real (n + 2))))
           (np_log (real n / real N)) = log_score n N table tokens"
proof (cases "n = 0")
  case True
  then show ?thesis by (simp add: np_log_def log_score_def)
next
  case False
  assume "0 < N"
  with False have "0 < real n / real N" by simp
  then have "np_log (real n / real N) = Fin (ln (real n / real N))" by (rule np_log_pos)
  with False show ?thesis by (simp add: log_score_def log_likelihood_def get_def)
qed

lemma predict_readable:
  assumes "0 < num_train_hams self + num_train_spams self"
    and "files filename = Inr content"
  shows "predict files self filename =
           (if greater
                 (log_score (num_train_spams self) (num_train_hams self + num_train_spams self)
                    (word_counts_spam self) (set (words_of content)))
                 (log_score (num_train_hams self) (num_train_hams self + num_train_spams self)
                    (word_counts_ham self) (set (words_of content)))
            then Inr SPAM_LABEL else Inr HAM_LABEL)"
proof -
  have w: "word_set files filename = Inr (words_of content)"
    using assms(2) by (simp add: word_set_def)
  have N: "0 < num_train_hams self + num_train_spams self" "num_train_hams self + num_train_spams self \<noteq> 0"
    using assms(1) by simp_all
  show ?thesis
    unfolding predict_def w sum.case Let_def fold_add_np_log_set [OF distinct_words_of]
      add_prior [OF N(1)]
    using N(2) by (simp only: if_False)
qed

lemma trained_example:
  "snd (fit example_files NaiveBayes [''ham1''] [''spam1'']) =
     \<lparr>num_train_hams = 1, num_train_spams = 1,
      word_counts_spam = frequency_table example_files [''spam1''],
      word_counts_ham = frequency_table example_files [''ham1'']\<rparr>"
  by (simp add: fit_readable example_readable)

lemma example_tables:
  "frequency_table example_files [''spam1''] ''unknown_word'' = None"
  "frequency_table example_files [''ham1''] ''unknown_word'' = None"
  "frequency_table example_files [''spam1''] ''free'' = Some 1"
  "frequency_table example_files [''spam1''] ''money'' = Some 1"
  "frequency_table example_files [''ham1''] ''free'' = None"
  "frequency_table example_files [''ham1''] ''money'' = None"
  by (simp_all add: frequency_table_def documents_with_def contains_def example_word_sets)

lemma log_score_cases:
  "log_score 0 N table tokens = NegInf"
  "0 < n \<Longrightarrow> \<exists>x. log_score n N table tokens = Fin x"
  by (simp_all add: log_score_def)

text \<open>
  C10. After \<open>fit\<close> with no ham document and at least one spam document, all readable,
  \<open>predict\<close> returns the spam label on every readable document and raises nothing: the
  ham prior is \<open>0\<close>, its logarithm \<open>-inf\<close>, and the spam score is finite. With the two
  collections exchanged, \<open>predict\<close> returns the ham label on every readable document.
\<close>

theorem predict_one_sided:
  assumes "\<forall>f \<in> set train. readable files f"
    and "train \<noteq> []"
    and "files filename = Inr content"
  shows "fst (fit files self [] train) = Inr () \<and>
         predict files (snd (fit files self [] train)) filename = Inr SPAM_LABEL \<and>
         fst (fit files self train []) = Inr () \<and>
         predict files (snd (fit files self train [])) filename = Inr HAM_LABEL"
proof -
  have n: "0 < length train" using assms(2) by simp
  have e: "\<forall>f \<in> set []. readable files f" by simp
  let ?s = "\<lparr>num_train_hams = 0, num_train_spams = length train,
             word_counts_spam = frequency_table files train,
             word_counts_ham = frequency_table files []\<rparr>"
  let ?h = "\<lparr>num_train_hams = length train, num_train_spams = 0,
             word_counts_spam = frequency_table files [],
             word_counts_ham = frequency_table files train\<rparr>"
  have fs: "fit files self [] train = (Inr (), ?s)"
    using fit_readable [OF e assms(1)] by simp
  have fh: "fit files self train [] = (Inr (), ?h)"
    using fit_readable [OF assms(1) e] by simp
  have Ns: "0 < num_train_hams ?s + num_train_spams ?s"
    and Nh: "0 < num_train_hams ?h + num_train_spams ?h"
    using n by simp_all
  obtain x where x: "log_score (length train) (length train) (frequency_table files train)
      (set (words_of content)) = Fin x"
    using log_score_cases(2) [OF n] by blast
  have "predict files ?s filename = Inr SPAM_LABEL"
    unfolding predict_readable [where files=files and filename=filename, OF Ns assms(3)]
    by (simp add: log_score_cases(1) x)
  moreover have "predict files ?h filename = Inr HAM_LABEL"
    unfolding predict_readable [where files=files and filename=filename, OF Nh assms(3)]
    by (simp add: log_score_cases(1) x)
  ultimately show ?thesis by (simp add: fs fh)
qed

theorem predict_one_sided_witness:
  "readable example_files ''spam1'' \<and> [''spam1''] \<noteq> [] \<and>
   example_files ''ham1'' = Inr ''Subject: meeting today'' \<and>
   fst (fit example_files NaiveBayes [] [''spam1'']) = Inr () \<and>
   predict example_files (snd (fit example_files NaiveBayes [] [''spam1''])) ''ham1'' =
     Inr SPAM_LABEL \<and>
   fst (fit example_files NaiveBayes [''spam1''] []) = Inr () \<and>
   predict example_files (snd (fit example_files NaiveBayes [''spam1''] [])) ''ham1'' =
     Inr HAM_LABEL"
proof -
  have r: "\<forall>f \<in> set [''spam1'']. readable example_files f"
    by (simp add: example_readable)
  have n: "[''spam1''] \<noteq> []" by simp
  have c: "example_files ''ham1'' = Inr ''Subject: meeting today''"
    by (simp add: example_files_def)
  from predict_one_sided [where files=example_files and filename="''ham1''", OF r n c, of NaiveBayes]
    example_readable(2) n c
  show ?thesis by simp
qed

lemma predict_untrained:
  "num_train_hams self + num_train_spams self = 0 \<Longrightarrow>
   predict files self filename = Inl ZeroDivisionError"
  by (simp add: predict_def)

lemma count_correct_untrained:
  "num_train_hams self + num_train_spams self = 0 \<Longrightarrow>
   count_correct files self label filenames total_correct =
     (if filenames = [] then Inr total_correct else Inl ZeroDivisionError)"
  by (cases filenames) (simp_all add: predict_untrained)

lemma accuracy_untrained:
  "num_train_hams self + num_train_spams self = 0 \<Longrightarrow>
   accuracy files self hams spams = Inl ZeroDivisionError"
  by (simp add: accuracy_def count_correct_untrained)

lemma fit_empty:
  "fit files self [] [] =
     (Inr (), self\<lparr>num_train_hams := 0, num_train_spams := 0,
                   word_counts_spam := Map.empty, word_counts_ham := Map.empty\<rparr>)"
  by (simp add: fit_def get_counts_def)

text \<open>
  C4. A classifier whose two document counts add up to zero raises \<open>ZeroDivisionError\<close>
  from \<open>predict\<close> on every file name (readable or not) and from \<open>accuracy\<close> on every pair
  of collections; no label and no number is returned. This is the case for the object
  that was never fit and for the object after \<open>fit\<close> with two empty collections.
\<close>

theorem untrained_raises:
  "(num_train_hams self + num_train_spams self = 0 \<longrightarrow>
      predict files self filename = Inl ZeroDivisionError \<and>
      accuracy files self hams spams = Inl ZeroDivisionError) \<and>
   predict files NaiveBayes filename = Inl ZeroDivisionError \<and>
   accuracy files NaiveBayes hams spams = Inl ZeroDivisionError \<and>
   fst (fit files self [] []) = Inr () \<and>
   predict files (snd (fit files self [] [])) filename = Inl ZeroDivisionError \<and>
   accuracy files (snd (fit files self [] [])) hams spams = Inl ZeroDivisionError"
proof -
  have a: "num_train_hams NaiveBayes + num_train_spams NaiveBayes = 0"
    by (simp add: NaiveBayes_def)
  have b: "num_train_hams (snd (fit files self [] [])) +
           num_train_spams (snd (fit files self [] [])) = 0"
    by (simp add: fit_empty)
  show ?thesis
    using predict_untrained [OF a] accuracy_untrained [OF a]
      predict_untrained [OF b] accuracy_untrained [OF b]
    by (simp add: predict_untrained accuracy_untrained fit_empty)
qed

theorem untrained_raises_witness:
  "num_train_hams NaiveBayes + num_train_spams NaiveBayes = 0 \<and>
   predict example_files NaiveBayes ''new1'' = Inl ZeroDivisionError \<and>
   accuracy example_files NaiveBayes [''ham1''] [''spam1''] = Inl ZeroDivisionError"
proof -
  have a: "num_train_hams NaiveBayes + num_train_spams NaiveBayes = 0"
    by (simp add: NaiveBayes_def)
  from untrained_raises [of NaiveBayes example_files "''new1''" "[''ham1'']" "[''spam1'']",
      THEN conjunct1, rule_format, OF a] a
  show ?thesis by simp
qed

text \<open>
  C8. For every classifier, \<open>accuracy\<close> on two empty collections raises
  \<open>ZeroDivisionError\<close> (the division by the document count \<open>0\<close>) and returns no number.
\<close>

theorem accuracy_no_documents:
  "accuracy files self [] [] = Inl ZeroDivisionError"
  by (simp add: accuracy_def)

subsection \<open>Accuracy\<close>

lemma predict_label:
  assumes "0 < num_train_hams self + num_train_spams self"
    and "readable files filename"
  shows "predict files self filename = Inr SPAM_LABEL \<or>
         predict files self filename = Inr HAM_LABEL"
proof -
  from assms(2) obtain content where "files filename = Inr content"
    by (auto simp: readable_def)
  from predict_readable [where files=files and filename=filename, OF assms(1) this]
  show ?thesis by (simp split: if_splits)
qed

lemma count_correct_readable:
  assumes "0 < num_train_hams self + num_train_spams self"
  shows "\<forall>f \<in> set filenames. readable files f \<Longrightarrow>
     count_correct files self label filenames total_correct =
       Inr (total_correct +
            length (filter (\<lambda>filename. predict files self filename = Inr label) filenames))"
proof (induction filenames arbitrary: total_correct)
  case Nil
  then show ?case by simp
next
  case (Cons name filenames)
  then have "readable files name" by simp
  from predict_label [OF assms this] obtain l where l: "predict files self name = Inr l"
    by blast
  from Cons.prems have r: "\<forall>f \<in> set filenames. readable files f" by simp
  show ?case
    by (simp add: l Cons.IH [OF r])
qed

lemma matches_le: "matches files self hams spams \<le> length hams + length spams"
  unfolding matches_def
  by (rule add_mono) (rule length_filter_le)+

text \<open>
  C5. For a classifier with at least one training document and two collections of
  readable documents that are not both empty, \<open>accuracy\<close> returns the number of ham
  documents predicted ham plus the number of spam documents predicted spam, divided by the
  number of documents; the value lies between \<open>0\<close> and \<open>1\<close>, both included.
\<close>

theorem accuracy_value:
  assumes "0 < num_train_hams self + num_train_spams self"
    and "\<forall>f \<in> set hams. readable files f"
    and "\<forall>f \<in> set spams. readable files f"
    and "0 < length hams + length spams"
  shows "accuracy files self hams spams =
           Inr (real (matches files self hams spams) / real (length hams + length spams)) \<and>
         0 \<le> real (matches files self hams spams) / real (length hams + length spams) \<and>
         real (matches files self hams spams) / real (length hams + length spams) \<le> 1"
proof (intro conjI)
  show "accuracy files self hams spams =
           Inr (real (matches files self hams spams) / real (length hams + length spams))"
    using assms(4)
    by (simp add: accuracy_def matches_def count_correct_readable [OF assms(1) assms(2)]
        count_correct_readable [OF assms(1) assms(3)])
  show "0 \<le> real (matches files self hams spams) / real (length hams + length spams)"
    by simp
  have le: "real (matches files self hams spams) \<le> real (length hams + length spams)"
    using matches_le [of files self hams spams] by (simp only: of_nat_le_iff)
  have pos: "0 < real (length hams + length spams)"
    using assms(4) by (simp only: of_nat_0_less_iff)
  from le show "real (matches files self hams spams) / real (length hams + length spams) \<le> 1"
    by (simp only: divide_le_eq_1_pos [OF pos])
qed

lemma example_tables_ham:
  "frequency_table example_files [''spam1''] ''meeting'' = None"
  "frequency_table example_files [''spam1''] ''today'' = None"
  "frequency_table example_files [''ham1''] ''meeting'' = Some 1"
  "frequency_table example_files [''ham1''] ''today'' = Some 1"
  by (simp_all add: frequency_table_def documents_with_def contains_def example_word_sets)

theorem accuracy_value_witness:
  "0 < num_train_hams (snd (fit example_files NaiveBayes [''ham1''] [''spam1''])) +
       num_train_spams (snd (fit example_files NaiveBayes [''ham1''] [''spam1''])) \<and>
   readable example_files ''ham1'' \<and> readable example_files ''new1'' \<and>
   readable example_files ''spam1'' \<and>
   0 < length [''ham1''] + length [''spam1'', ''new1''] \<and>
   matches example_files (snd (fit example_files NaiveBayes [''ham1''] [''spam1'']))
     [''ham1''] [''spam1'', ''new1''] = 2 \<and>
   accuracy example_files (snd (fit example_files NaiveBayes [''ham1''] [''spam1'']))
     [''ham1''] [''spam1'', ''new1''] = Inr (2 / 3) \<and>
   (0::real) \<le> 2 / 3 \<and> (2::real) / 3 \<le> 1"
proof -
  define self where "self = snd (fit example_files NaiveBayes [''ham1''] [''spam1''])"
  have self: "num_train_hams self = 1" "num_train_spams self = 1"
    "word_counts_spam self = frequency_table example_files [''spam1'']"
    "word_counts_ham self = frequency_table example_files [''ham1'']"
    by (simp_all add: self_def trained_example)
  have N: "0 < num_train_hams self + num_train_spams self"
    by (simp add: self)
  have h: "\<forall>f \<in> set [''ham1'']. readable example_files f"
    and s: "\<forall>f \<in> set [''spam1'', ''new1'']. readable example_files f"
    by (simp_all add: example_readable)
  have t: "0 < length [''ham1''] + length [''spam1'', ''new1'']"
    by simp
  have f: "example_files ''ham1'' = Inr ''Subject: meeting today''"
    "example_files ''spam1'' = Inr ''Subject: free money''"
    "example_files ''new1'' = Inr ''Subject: unknown_word''"
    by (simp_all add: example_files_def)
  have w: "words_of ''Subject: meeting today'' = [''meeting'', ''today'']"
    "words_of ''Subject: free money'' = [''free'', ''money'']"
    "words_of ''Subject: unknown_word'' = [''unknown_word'']"
    by (simp_all add: words_of_def replace_def)
  have l: "ln (1 / 3 :: real) < ln (2 / 3)"
    by simp
  have p: "predict example_files self ''ham1'' = Inr HAM_LABEL"
    "predict example_files self ''spam1'' = Inr SPAM_LABEL"
    "predict example_files self ''new1'' = Inr HAM_LABEL"
    using l
    by (simp_all add: predict_readable [where files=example_files, OF N f(1)]
        predict_readable [where files=example_files, OF N f(2)]
        predict_readable [where files=example_files, OF N f(3)]
        self w log_score_def log_likelihood_def example_tables example_tables_ham)
  have m: "matches example_files self [''ham1''] [''spam1'', ''new1''] = 2"
    by (simp add: matches_def p HAM_LABEL_def SPAM_LABEL_def)
  from accuracy_value [OF N h s t] m N example_readable
  show ?thesis unfolding self_def by simp
qed

subsection \<open>The header\<close>

lemma example_headers:
  "example_files ''header8'' = Inr ''Subject:X''"
  "example_files ''header9'' = Inr ''Subject: X''"
  by (simp_all add: example_files_def)

text \<open>
  C7. A document whose content is exactly \<open>Subject: X\<close>, the header with the space after
  the colon (nine characters) followed by \<open>X\<close>, tokenizes to the single token \<open>X\<close>.
  The content \<open>Subject:X\<close> is nine characters long in all: nothing is left after the
  header is dropped, and it tokenizes to the single empty token.
\<close>

theorem header_stripping:
  "(files filename = Inr ''Subject: X'' \<longrightarrow> word_set files filename = Inr [''X'']) \<and>
   (files filename = Inr ''Subject:X'' \<longrightarrow> word_set files filename = Inr [''''])"
  by (simp add: word_set_def words_of_def replace_def)

theorem header_stripping_witness:
  "example_files ''header9'' = Inr ''Subject: X'' \<and>
   word_set example_files ''header9'' = Inr [''X''] \<and>
   example_files ''header8'' = Inr ''Subject:X'' \<and>
   word_set example_files ''header8'' = Inr ['''']"
  using header_stripping [of example_files "''header9''", THEN conjunct1, rule_format,
      OF example_headers(2)]
    header_stripping [of example_files "''header8''", THEN conjunct2, rule_format,
      OF example_headers(1)]
    example_headers
  by (intro conjI)

text \<open>
  The header without the space is not enough: the document \<open>Subject:X\<close> does not
  tokenize to the set that holds \<open>X\<close>.
\<close>

theorem header_only_counterexample:
  "example_files ''header8'' = Inr ''Subject:X'' \<and>
   word_set example_files ''header8'' = Inr [''''] \<and>
   set ['''' :: string] \<noteq> {''X''}"
  by (simp add: example_headers word_set_def words_of_def replace_def)

subsection \<open>Loading the corpus\<close>

lemma load_data_ok:
  assumes "corpus_layout listdir path"
  shows "load_data listdir path =
           Inr (documents_in listdir path ''train'' ''ham'',
                documents_in listdir path ''train'' ''spam'',
                documents_in listdir path ''test'' ''ham'',
                documents_in listdir path ''test'' ''spam'')"
proof -
  have c: "set [''train'', ''test''] = set [''test'', ''train'']"
    by (simp add: insert_commute)
  from assms obtain r where r: "listdir path = Inr r" "set r = set [''test'', ''train'']"
    unfolding corpus_layout_def names_are_def c by (auto split: sum.splits)
  from assms obtain te where te: "listdir (path_join path [''test'']) = Inr te"
    "set te = set [''ham'', ''spam'']"
    unfolding corpus_layout_def names_are_def by (auto split: sum.splits)
  from assms obtain tr where tr: "listdir (path_join path [''train'']) = Inr tr"
    "set tr = set [''ham'', ''spam'']"
    unfolding corpus_layout_def names_are_def by (auto split: sum.splits)
  from assms obtain n1 n2 n3 n4 where n:
    "listdir (path_join path [''train'', ''ham'']) = Inr n1"
    "listdir (path_join path [''train'', ''spam'']) = Inr n2"
    "listdir (path_join path [''test'', ''ham'']) = Inr n3"
    "listdir (path_join path [''test'', ''spam'']) = Inr n4"
    unfolding corpus_layout_def listable_def by (auto split: sum.splits)
  show ?thesis
    unfolding load_data_def documents_in_def r te tr n sum.case Let_def
    by (simp only: if_True if_False simp_thms)
qed

lemma load_data_Inr_layout:
  assumes "load_data listdir path = Inr result"
  shows "corpus_layout listdir path"
proof -
  have c: "set [''train'', ''test''] = set [''test'', ''train'']"
    by (simp add: insert_commute)
  from assms show ?thesis
    unfolding load_data_def corpus_layout_def names_are_def listable_def c Let_def
    by (auto split: sum.splits if_splits)
qed

lemma names_areE:
  assumes "names_are listdir dir expected"
  obtains names where "listdir dir = Inr names" "set names = set expected"
  using assms by (auto simp: names_are_def split: sum.splits)

lemma other_namesE:
  assumes "other_names listdir dir expected"
  obtains names where "listdir dir = Inr names" "set names \<noteq> set expected"
  using assms by (auto simp: other_names_def split: sum.splits)

lemma train_test: "set [''train'', ''test''] = set [''test'', ''train'']"
  by (simp add: insert_commute)

lemma load_data_assert_root:
  assumes "other_names listdir path [''train'', ''test'']"
  shows "load_data listdir path = Inl AssertionError"
proof -
  from assms obtain r where r0: "listdir path = Inr r" "set r \<noteq> set [''train'', ''test'']"
    by (rule other_namesE)
  have r: "listdir path = Inr r" "set r \<noteq> set [''test'', ''train'']"
    using r0 by (simp_all only: train_test simp_thms)
  show ?thesis
    unfolding load_data_def r sum.case using r(2) by (simp only: if_True if_False simp_thms)
qed

lemma load_data_assert_test:
  assumes "names_are listdir path [''train'', ''test'']"
    and "other_names listdir (path_join path [''test'']) [''ham'', ''spam'']"
  shows "load_data listdir path = Inl AssertionError"
proof -
  from assms(1) obtain r where r0: "listdir path = Inr r" "set r = set [''train'', ''test'']"
    by (rule names_areE)
  have r: "listdir path = Inr r" "set r = set [''test'', ''train'']"
    using r0 by (simp_all only: train_test simp_thms)
  from assms(2) obtain te where te: "listdir (path_join path [''test'']) = Inr te"
    "set te \<noteq> set [''ham'', ''spam'']"
    by (rule other_namesE)
  show ?thesis
    unfolding load_data_def r sum.case te using te(2)
    by (simp only: if_True if_False simp_thms)
qed

lemma load_data_assert_train:
  assumes "names_are listdir path [''train'', ''test'']"
    and "names_are listdir (path_join path [''test'']) [''ham'', ''spam'']"
    and "other_names listdir (path_join path [''train'']) [''ham'', ''spam'']"
  shows "load_data listdir path = Inl AssertionError"
proof -
  from assms(1) obtain r where r0: "listdir path = Inr r" "set r = set [''train'', ''test'']"
    by (rule names_areE)
  have r: "listdir path = Inr r" "set r = set [''test'', ''train'']"
    using r0 by (simp_all only: train_test simp_thms)
  from assms(2) obtain te where te: "listdir (path_join path [''test'']) = Inr te"
    "set te = set [''ham'', ''spam'']"
    by (rule names_areE)
  from assms(3) obtain tr where tr: "listdir (path_join path [''train'']) = Inr tr"
    "set tr \<noteq> set [''ham'', ''spam'']"
    by (rule other_namesE)
  show ?thesis
    unfolding load_data_def r sum.case te tr using tr(2)
    by (simp only: if_True if_False simp_thms)
qed

lemma listableE:
  assumes "listable listdir dir"
  obtains names where "listdir dir = Inr names"
  using assms by (auto simp: listable_def split: sum.splits)

lemma load_data_unlistable_root:
  assumes "listdir path = Inl e"
  shows "load_data listdir path = Inl e"
  unfolding load_data_def assms sum.case ..

lemma load_data_unlistable_test:
  assumes "names_are listdir path [''train'', ''test'']"
    and "listdir (path_join path [''test'']) = Inl e"
  shows "load_data listdir path = Inl e"
proof -
  from assms(1) obtain r where r0: "listdir path = Inr r" "set r = set [''train'', ''test'']"
    by (rule names_areE)
  have r: "listdir path = Inr r" "set r = set [''test'', ''train'']"
    using r0 by (simp_all only: train_test simp_thms)
  show ?thesis
    unfolding load_data_def r sum.case assms(2)
    by (simp only: if_True if_False simp_thms)
qed

lemma load_data_unlistable_train:
  assumes "names_are listdir path [''train'', ''test'']"
    and "names_are listdir (path_join path [''test'']) [''ham'', ''spam'']"
    and "listdir (path_join path [''train'']) = Inl e"
  shows "load_data listdir path = Inl e"
proof -
  from assms(1) obtain r where r0: "listdir path = Inr r" "set r = set [''train'', ''test'']"
    by (rule names_areE)
  have r: "listdir path = Inr r" "set r = set [''test'', ''train'']"
    using r0 by (simp_all only: train_test simp_thms)
  from assms(2) obtain te where te: "listdir (path_join path [''test'']) = Inr te"
    "set te = set [''ham'', ''spam'']"
    by (rule names_areE)
  show ?thesis
    unfolding load_data_def r sum.case te assms(3)
    by (simp only: if_True if_False simp_thms)
qed

lemma load_data_groups_match:
  assumes "groups_match listdir path"
  shows "load_data listdir path =
     (case listdir (path_join path [''train'', ''ham'']) of Inl e \<Rightarrow> Inl e | Inr names1 \<Rightarrow>
      case listdir (path_join path [''train'', ''spam'']) of Inl e \<Rightarrow> Inl e | Inr names2 \<Rightarrow>
      case listdir (path_join path [''test'', ''ham'']) of Inl e \<Rightarrow> Inl e | Inr names3 \<Rightarrow>
      case listdir (path_join path [''test'', ''spam'']) of Inl e \<Rightarrow> Inl e | Inr names4 \<Rightarrow>
      Inr (map (\<lambda>filename. path_join path [''train'', ''ham'', filename]) names1,
           map (\<lambda>filename. path_join path [''train'', ''spam'', filename]) names2,
           map (\<lambda>filename. path_join path [''test'', ''ham'', filename]) names3,
           map (\<lambda>filename. path_join path [''test'', ''spam'', filename]) names4))"
proof -
  from assms have g: "names_are listdir path [''train'', ''test'']"
    "names_are listdir (path_join path [''test'']) [''ham'', ''spam'']"
    "names_are listdir (path_join path [''train'']) [''ham'', ''spam'']"
    by (simp_all only: groups_match_def)
  from g(1) obtain r where r0: "listdir path = Inr r" "set r = set [''train'', ''test'']"
    by (rule names_areE)
  have r: "listdir path = Inr r" "set r = set [''test'', ''train'']"
    using r0 by (simp_all only: train_test simp_thms)
  from g(2) obtain te where te: "listdir (path_join path [''test'']) = Inr te"
    "set te = set [''ham'', ''spam'']"
    by (rule names_areE)
  from g(3) obtain tr where tr: "listdir (path_join path [''train'']) = Inr tr"
    "set tr = set [''ham'', ''spam'']"
    by (rule names_areE)
  show ?thesis
    unfolding load_data_def r te tr sum.case Let_def
    by (simp only: if_True if_False simp_thms)
qed

lemma load_data_unlistable_train_ham:
  assumes "groups_match listdir path" and "listdir (path_join path [''train'', ''ham'']) = Inl e"
  shows "load_data listdir path = Inl e"
  unfolding load_data_groups_match [OF assms(1)] assms(2) sum.case ..

lemma load_data_unlistable_train_spam:
  assumes "groups_match listdir path" and "listable listdir (path_join path [''train'', ''ham''])" and "listdir (path_join path [''train'', ''spam'']) = Inl e"
  shows "load_data listdir path = Inl e"
proof -
  from assms(2) obtain n1 where n1: "listdir (path_join path [''train'', ''ham'']) = Inr n1"
    by (rule listableE)
  show ?thesis
    unfolding load_data_groups_match [OF assms(1)] n1 assms(3) sum.case ..
qed

lemma load_data_unlistable_test_ham:
  assumes "groups_match listdir path" and "listable listdir (path_join path [''train'', ''ham''])" and "listable listdir (path_join path [''train'', ''spam''])"
    and "listdir (path_join path [''test'', ''ham'']) = Inl e"
  shows "load_data listdir path = Inl e"
proof -
  from assms(2) obtain n1 where n1: "listdir (path_join path [''train'', ''ham'']) = Inr n1"
    by (rule listableE)
  from assms(3) obtain n2 where n2: "listdir (path_join path [''train'', ''spam'']) = Inr n2"
    by (rule listableE)
  show ?thesis
    unfolding load_data_groups_match [OF assms(1)] n1 n2 assms(4) sum.case ..
qed

lemma load_data_unlistable_test_spam:
  assumes "groups_match listdir path" and "listable listdir (path_join path [''train'', ''ham''])" and "listable listdir (path_join path [''train'', ''spam''])"
    and "listable listdir (path_join path [''test'', ''ham''])" and "listdir (path_join path [''test'', ''spam'']) = Inl e"
  shows "load_data listdir path = Inl e"
proof -
  from assms(2) obtain n1 where n1: "listdir (path_join path [''train'', ''ham'']) = Inr n1"
    by (rule listableE)
  from assms(3) obtain n2 where n2: "listdir (path_join path [''train'', ''spam'']) = Inr n2"
    by (rule listableE)
  from assms(4) obtain n3 where n3: "listdir (path_join path [''test'', ''ham'']) = Inr n3"
    by (rule listableE)
  show ?thesis
    unfolding load_data_groups_match [OF assms(1)] n1 n2 n3 assms(5) sum.case ..
qed

lemma listing_cases:
  "names_are listdir dir expected \<or> other_names listdir dir expected \<or>
   (\<exists>e. listdir dir = Inl e)"
  "listable listdir dir \<or> (\<exists>e. listdir dir = Inl e)"
  by (cases "listdir dir"; simp add: names_are_def other_names_def listable_def)+

text \<open>
  C9. \<open>load_data\<close> makes seven checks in this order: the root lists exactly the names
  \<open>train\<close> and \<open>test\<close>; \<open>test\<close> lists exactly \<open>ham\<close> and \<open>spam\<close>; \<open>train\<close> lists
  exactly \<open>ham\<close> and \<open>spam\<close>; then the subgroups \<open>train/ham\<close>, \<open>train/spam\<close>,
  \<open>test/ham\<close> and \<open>test/spam\<close> can be listed. The first check that fails decides the
  outcome: a location that cannot be listed fails with the error of its listing, passed
  on as it is, and a location that lists other names than the expected ones, extra or
  missing, fails with the failed \<open>assert\<close>. When no check fails, which is exactly when the
  layout is the expected one, \<open>load_data\<close> returns the four collections of document
  identifiers (train-ham, train-spam, test-ham, test-spam: the joined path of every name
  listed in the subgroup). The last two clauses say that the cases are all there are.
\<close>

theorem load_data_layout:
  "(corpus_layout listdir path \<longrightarrow>
      load_data listdir path =
        Inr (documents_in listdir path ''train'' ''ham'',
             documents_in listdir path ''train'' ''spam'',
             documents_in listdir path ''test'' ''ham'',
             documents_in listdir path ''test'' ''spam'')) \<and>
   (\<not> corpus_layout listdir path \<longrightarrow> (\<exists>e. load_data listdir path = Inl e)) \<and>
   (\<forall>e. listdir path = Inl e \<longrightarrow> load_data listdir path = Inl e) \<and>
   (other_names listdir path [''train'', ''test''] \<longrightarrow>
      load_data listdir path = Inl AssertionError) \<and>
   (\<forall>e. names_are listdir path [''train'', ''test''] \<longrightarrow>
      listdir (path_join path [''test'']) = Inl e \<longrightarrow>
      load_data listdir path = Inl e) \<and>
   (names_are listdir path [''train'', ''test''] \<longrightarrow>
      other_names listdir (path_join path [''test'']) [''ham'', ''spam''] \<longrightarrow>
      load_data listdir path = Inl AssertionError) \<and>
   (\<forall>e. names_are listdir path [''train'', ''test''] \<longrightarrow>
      names_are listdir (path_join path [''test'']) [''ham'', ''spam''] \<longrightarrow>
      listdir (path_join path [''train'']) = Inl e \<longrightarrow>
      load_data listdir path = Inl e) \<and>
   (names_are listdir path [''train'', ''test''] \<longrightarrow>
      names_are listdir (path_join path [''test'']) [''ham'', ''spam''] \<longrightarrow>
      other_names listdir (path_join path [''train'']) [''ham'', ''spam''] \<longrightarrow>
      load_data listdir path = Inl AssertionError) \<and>
   (\<forall>e. groups_match listdir path \<longrightarrow>
      listdir (path_join path [''train'', ''ham'']) = Inl e \<longrightarrow>
      load_data listdir path = Inl e) \<and>
   (\<forall>e. groups_match listdir path \<longrightarrow>
      listable listdir (path_join path [''train'', ''ham'']) \<longrightarrow>
      listdir (path_join path [''train'', ''spam'']) = Inl e \<longrightarrow>
      load_data listdir path = Inl e) \<and>
   (\<forall>e. groups_match listdir path \<longrightarrow>
      listable listdir (path_join path [''train'', ''ham'']) \<longrightarrow>
      listable listdir (path_join path [''train'', ''spam'']) \<longrightarrow>
      listdir (path_join path [''test'', ''ham'']) = Inl e \<longrightarrow>
      load_data listdir path = Inl e) \<and>
   (\<forall>e. groups_match listdir path \<longrightarrow>
      listable listdir (path_join path [''train'', ''ham'']) \<longrightarrow>
      listable listdir (path_join path [''train'', ''spam'']) \<longrightarrow>
      listable listdir (path_join path [''test'', ''ham'']) \<longrightarrow>
      listdir (path_join path [''test'', ''spam'']) = Inl e \<longrightarrow>
      load_data listdir path = Inl e) \<and>
   (\<forall>dir expected. names_are listdir dir expected \<or> other_names listdir dir expected \<or>
      (\<exists>e. listdir dir = Inl e)) \<and>
   (\<forall>dir. listable listdir dir \<or> (\<exists>e. listdir dir = Inl e))"
proof (intro conjI impI allI)
  assume "corpus_layout listdir path"
  then show "load_data listdir path =
        Inr (documents_in listdir path ''train'' ''ham'',
             documents_in listdir path ''train'' ''spam'',
             documents_in listdir path ''test'' ''ham'',
             documents_in listdir path ''test'' ''spam'')"
    by (rule load_data_ok)
next
  assume n: "\<not> corpus_layout listdir path"
  show "\<exists>e. load_data listdir path = Inl e"
  proof (cases "load_data listdir path")
    case (Inl e)
    then show ?thesis by blast
  next
    case (Inr result)
    then have "corpus_layout listdir path" by (rule load_data_Inr_layout)
    with n show ?thesis by contradiction
  qed
next
  fix e
  assume "listdir path = Inl e"
  then show "load_data listdir path = Inl e"
    by (rule load_data_unlistable_root)
next
  assume "other_names listdir path [''train'', ''test'']"
  then show "load_data listdir path = Inl AssertionError"
    by (rule load_data_assert_root)
next
  fix e
  assume "names_are listdir path [''train'', ''test'']"
    and "listdir (path_join path [''test'']) = Inl e"
  then show "load_data listdir path = Inl e"
    by (rule load_data_unlistable_test)
next
  assume "names_are listdir path [''train'', ''test'']"
    and "other_names listdir (path_join path [''test'']) [''ham'', ''spam'']"
  then show "load_data listdir path = Inl AssertionError"
    by (rule load_data_assert_test)
next
  fix e
  assume "names_are listdir path [''train'', ''test'']"
    and "names_are listdir (path_join path [''test'']) [''ham'', ''spam'']"
    and "listdir (path_join path [''train'']) = Inl e"
  then show "load_data listdir path = Inl e"
    by (rule load_data_unlistable_train)
next
  assume "names_are listdir path [''train'', ''test'']"
    and "names_are listdir (path_join path [''test'']) [''ham'', ''spam'']"
    and "other_names listdir (path_join path [''train'']) [''ham'', ''spam'']"
  then show "load_data listdir path = Inl AssertionError"
    by (rule load_data_assert_train)
next
  fix e
  assume "groups_match listdir path" and "listdir (path_join path [''train'', ''ham'']) = Inl e"
  then show "load_data listdir path = Inl e"
    by (rule load_data_unlistable_train_ham)
next
  fix e
  assume "groups_match listdir path" and "listable listdir (path_join path [''train'', ''ham''])" and "listdir (path_join path [''train'', ''spam'']) = Inl e"
  then show "load_data listdir path = Inl e"
    by (rule load_data_unlistable_train_spam)
next
  fix e
  assume "groups_match listdir path" and "listable listdir (path_join path [''train'', ''ham''])" and "listable listdir (path_join path [''train'', ''spam''])"
    and "listdir (path_join path [''test'', ''ham'']) = Inl e"
  then show "load_data listdir path = Inl e"
    by (rule load_data_unlistable_test_ham)
next
  fix e
  assume "groups_match listdir path" and "listable listdir (path_join path [''train'', ''ham''])" and "listable listdir (path_join path [''train'', ''spam''])"
    and "listable listdir (path_join path [''test'', ''ham''])" and "listdir (path_join path [''test'', ''spam'']) = Inl e"
  then show "load_data listdir path = Inl e"
    by (rule load_data_unlistable_test_spam)
next
  fix dir expected
  show "names_are listdir dir expected \<or> other_names listdir dir expected \<or>
      (\<exists>e. listdir dir = Inl e)"
    by (rule listing_cases(1))
next
  fix dir
  show "listable listdir dir \<or> (\<exists>e. listdir dir = Inl e)"
    by (rule listing_cases(2))
qed

lemma example_paths:
  "path_join ''data/'' [''train''] = ''data/train''"
  "path_join ''data/'' [''test''] = ''data/test''"
  "path_join ''data/'' [''train'', ''ham''] = ''data/train/ham''"
  "path_join ''data/'' [''train'', ''spam''] = ''data/train/spam''"
  "path_join ''data/'' [''test'', ''ham''] = ''data/test/ham''"
  "path_join ''data/'' [''test'', ''spam''] = ''data/test/spam''"
  "path_join ''data/'' [''train'', ''ham'', ''ham1''] = ''data/train/ham/ham1''"
  "path_join ''data/'' [''train'', ''spam'', ''spam1''] = ''data/train/spam/spam1''"
  "path_join ''data/'' [''test'', ''spam'', ''new1''] = ''data/test/spam/new1''"
  by (simp_all add: path_join_def join_step_def)

lemma example_layout: "corpus_layout example_dirs ''data/''"
  by (simp add: corpus_layout_def names_are_def listable_def example_paths example_dirs_def
      insert_commute)

lemma example_documents:
  "documents_in example_dirs ''data/'' ''train'' ''ham'' = [''data/train/ham/ham1'']"
  "documents_in example_dirs ''data/'' ''train'' ''spam'' = [''data/train/spam/spam1'']"
  "documents_in example_dirs ''data/'' ''test'' ''ham'' = []"
  "documents_in example_dirs ''data/'' ''test'' ''spam'' = [''data/test/spam/new1'']"
  by (simp_all add: documents_in_def example_paths example_dirs_def)

lemma set_neqI: "x \<in> A \<Longrightarrow> x \<notin> B \<Longrightarrow> A \<noteq> B"
  by blast

lemma extra_group_names:
  "other_names extra_group_dirs ''data/'' [''train'', ''test'']"
proof -
  have "set [''train'', ''test'', ''notes''] \<noteq> set [''train'', ''test'']"
    by (rule set_neqI [of "''notes''"]) simp_all
  then show ?thesis
    by (simp only: other_names_def extra_group_dirs_def if_True sum.case simp_thms)
qed

lemma missing_subgroup_names:
  "names_are missing_subgroup_dirs ''data/'' [''train'', ''test'']"
  "other_names missing_subgroup_dirs (path_join ''data/'' [''test'']) [''ham'', ''spam'']"
proof -
  show "names_are missing_subgroup_dirs ''data/'' [''train'', ''test'']"
    by (simp add: names_are_def missing_subgroup_dirs_def example_dirs_def)
  have "set [''ham'', ''spam''] \<noteq> set [''ham'']"
    by (rule set_neqI [of "''spam''"]) simp_all
  then have "set [''ham''] \<noteq> set [''ham'', ''spam'']"
    by (rule not_sym)
  then show "other_names missing_subgroup_dirs (path_join ''data/'' [''test'']) [''ham'', ''spam'']"
    by (simp only: other_names_def missing_subgroup_dirs_def example_paths if_True sum.case simp_thms)
qed

lemma extra_subgroup_names:
  "names_are extra_subgroup_dirs ''data/'' [''train'', ''test'']"
  "names_are extra_subgroup_dirs (path_join ''data/'' [''test'']) [''ham'', ''spam'']"
  "other_names extra_subgroup_dirs (path_join ''data/'' [''train'']) [''ham'', ''spam'']"
proof -
  show "names_are extra_subgroup_dirs ''data/'' [''train'', ''test'']"
    by (simp add: names_are_def extra_subgroup_dirs_def example_dirs_def)
  show "names_are extra_subgroup_dirs (path_join ''data/'' [''test'']) [''ham'', ''spam'']"
    by (simp add: names_are_def extra_subgroup_dirs_def example_dirs_def example_paths)
  have "set [''ham'', ''spam'', ''old''] \<noteq> set [''ham'', ''spam'']"
    by (rule set_neqI [of "''old''"]) simp_all
  then show "other_names extra_subgroup_dirs (path_join ''data/'' [''train'']) [''ham'', ''spam'']"
    by (simp only: other_names_def extra_subgroup_dirs_def example_paths if_True sum.case simp_thms)
qed

lemma extra_group_no_layout: "\<not> corpus_layout extra_group_dirs ''data/''"
proof
  assume "corpus_layout extra_group_dirs ''data/''"
  then have "names_are extra_group_dirs ''data/'' [''train'', ''test'']"
    by (simp only: corpus_layout_def)
  with extra_group_names show False
    by (simp add: names_are_def other_names_def split: sum.splits)
qed

lemma example_groups: "groups_match example_dirs ''data/''"
  by (simp add: groups_match_def names_are_def example_paths example_dirs_def insert_commute)

lemma unlistable_test_facts:
  "names_are (unlistable_at ''data/test'' example_dirs) ''data/'' [''train'', ''test'']"
  "unlistable_at ''data/test'' example_dirs (path_join ''data/'' [''test'']) = Inl OSError"
  by (simp_all add: names_are_def unlistable_at_def example_paths example_dirs_def)

lemma overlap_facts:
  "names_are (unlistable_at ''data/train'' missing_subgroup_dirs) ''data/'' [''train'', ''test'']"
  "other_names (unlistable_at ''data/train'' missing_subgroup_dirs)
     (path_join ''data/'' [''test'']) [''ham'', ''spam'']"
  "unlistable_at ''data/train'' missing_subgroup_dirs (path_join ''data/'' [''train'']) =
     Inl OSError"
proof -
  show "names_are (unlistable_at ''data/train'' missing_subgroup_dirs) ''data/''
      [''train'', ''test'']"
    by (simp add: names_are_def unlistable_at_def missing_subgroup_dirs_def example_dirs_def)
  have "other_names missing_subgroup_dirs (path_join ''data/'' [''test'']) [''ham'', ''spam'']"
    by (rule missing_subgroup_names(2))
  then show "other_names (unlistable_at ''data/train'' missing_subgroup_dirs)
     (path_join ''data/'' [''test'']) [''ham'', ''spam'']"
    by (simp add: other_names_def unlistable_at_def example_paths)
  show "unlistable_at ''data/train'' missing_subgroup_dirs (path_join ''data/'' [''train'']) =
     Inl OSError"
    by (simp add: unlistable_at_def example_paths)
qed

lemma file_group_facts:
  "names_are file_group_dirs ''data/'' [''train'', ''test'']"
  "names_are file_group_dirs (path_join ''data/'' [''test'']) [''ham'', ''spam'']"
  "file_group_dirs (path_join ''data/'' [''train'']) = Inl OSError"
  by (simp_all add: names_are_def file_group_dirs_def example_paths example_dirs_def)

lemma unlistable_train_ham_facts:
  "groups_match (unlistable_at ''data/train/ham'' example_dirs) ''data/''"
  "unlistable_at ''data/train/ham'' example_dirs (path_join ''data/'' [''train'', ''ham'']) = Inl OSError"
  by (simp_all add: groups_match_def names_are_def listable_def unlistable_at_def
      example_paths example_dirs_def insert_commute)

lemma unlistable_train_spam_facts:
  "groups_match (unlistable_at ''data/train/spam'' example_dirs) ''data/''"
  "listable (unlistable_at ''data/train/spam'' example_dirs) (path_join ''data/'' [''train'', ''ham''])"
  "unlistable_at ''data/train/spam'' example_dirs (path_join ''data/'' [''train'', ''spam'']) = Inl OSError"
  by (simp_all add: groups_match_def names_are_def listable_def unlistable_at_def
      example_paths example_dirs_def insert_commute)

lemma unlistable_test_ham_facts:
  "groups_match (unlistable_at ''data/test/ham'' example_dirs) ''data/''"
  "listable (unlistable_at ''data/test/ham'' example_dirs) (path_join ''data/'' [''train'', ''ham''])"
  "listable (unlistable_at ''data/test/ham'' example_dirs) (path_join ''data/'' [''train'', ''spam''])"
  "unlistable_at ''data/test/ham'' example_dirs (path_join ''data/'' [''test'', ''ham'']) = Inl OSError"
  by (simp_all add: groups_match_def names_are_def listable_def unlistable_at_def
      example_paths example_dirs_def insert_commute)

lemma unlistable_test_spam_facts:
  "groups_match (unlistable_at ''data/test/spam'' example_dirs) ''data/''"
  "listable (unlistable_at ''data/test/spam'' example_dirs) (path_join ''data/'' [''train'', ''ham''])"
  "listable (unlistable_at ''data/test/spam'' example_dirs) (path_join ''data/'' [''train'', ''spam''])"
  "listable (unlistable_at ''data/test/spam'' example_dirs) (path_join ''data/'' [''test'', ''ham''])"
  "unlistable_at ''data/test/spam'' example_dirs (path_join ''data/'' [''test'', ''spam'']) = Inl OSError"
  by (simp_all add: groups_match_def names_are_def listable_def unlistable_at_def
      example_paths example_dirs_def insert_commute)

theorem load_data_layout_witness:
  "corpus_layout example_dirs ''data/'' \<and>
   load_data example_dirs ''data/'' =
     Inr ([''data/train/ham/ham1''], [''data/train/spam/spam1''], [],
          [''data/test/spam/new1'']) \<and>
   \<not> corpus_layout extra_group_dirs ''data/'' \<and>
   (\<exists>e. load_data extra_group_dirs ''data/'' = Inl e) \<and>
   missing_root_dirs ''data/'' = Inl OSError \<and>
   load_data missing_root_dirs ''data/'' = Inl OSError \<and>
   other_names extra_group_dirs ''data/'' [''train'', ''test''] \<and>
   load_data extra_group_dirs ''data/'' = Inl AssertionError \<and>
   names_are (unlistable_at ''data/test'' example_dirs) ''data/'' [''train'', ''test''] \<and>
   unlistable_at ''data/test'' example_dirs (path_join ''data/'' [''test'']) = Inl OSError \<and>
   load_data (unlistable_at ''data/test'' example_dirs) ''data/'' = Inl OSError \<and>
   names_are missing_subgroup_dirs ''data/'' [''train'', ''test''] \<and>
   other_names missing_subgroup_dirs (path_join ''data/'' [''test'']) [''ham'', ''spam''] \<and>
   load_data missing_subgroup_dirs ''data/'' = Inl AssertionError \<and>
   names_are (unlistable_at ''data/train'' missing_subgroup_dirs) ''data/'' [''train'', ''test''] \<and>
   other_names (unlistable_at ''data/train'' missing_subgroup_dirs) (path_join ''data/'' [''test'']) [''ham'', ''spam''] \<and>
   unlistable_at ''data/train'' missing_subgroup_dirs (path_join ''data/'' [''train'']) = Inl OSError \<and>
   load_data (unlistable_at ''data/train'' missing_subgroup_dirs) ''data/'' = Inl AssertionError \<and>
   names_are file_group_dirs ''data/'' [''train'', ''test''] \<and>
   names_are file_group_dirs (path_join ''data/'' [''test'']) [''ham'', ''spam''] \<and>
   file_group_dirs (path_join ''data/'' [''train'']) = Inl OSError \<and>
   load_data file_group_dirs ''data/'' = Inl OSError \<and>
   names_are extra_subgroup_dirs ''data/'' [''train'', ''test''] \<and>
   names_are extra_subgroup_dirs (path_join ''data/'' [''test'']) [''ham'', ''spam''] \<and>
   other_names extra_subgroup_dirs (path_join ''data/'' [''train'']) [''ham'', ''spam''] \<and>
   load_data extra_subgroup_dirs ''data/'' = Inl AssertionError \<and>
   groups_match (unlistable_at ''data/train/ham'' example_dirs) ''data/'' \<and>
   unlistable_at ''data/train/ham'' example_dirs (path_join ''data/'' [''train'', ''ham'']) = Inl OSError \<and>
   load_data (unlistable_at ''data/train/ham'' example_dirs) ''data/'' = Inl OSError \<and>
   groups_match (unlistable_at ''data/train/spam'' example_dirs) ''data/'' \<and>
   listable (unlistable_at ''data/train/spam'' example_dirs) (path_join ''data/'' [''train'', ''ham'']) \<and>
   unlistable_at ''data/train/spam'' example_dirs (path_join ''data/'' [''train'', ''spam'']) = Inl OSError \<and>
   load_data (unlistable_at ''data/train/spam'' example_dirs) ''data/'' = Inl OSError \<and>
   groups_match (unlistable_at ''data/test/ham'' example_dirs) ''data/'' \<and>
   listable (unlistable_at ''data/test/ham'' example_dirs) (path_join ''data/'' [''train'', ''ham'']) \<and>
   listable (unlistable_at ''data/test/ham'' example_dirs) (path_join ''data/'' [''train'', ''spam'']) \<and>
   unlistable_at ''data/test/ham'' example_dirs (path_join ''data/'' [''test'', ''ham'']) = Inl OSError \<and>
   load_data (unlistable_at ''data/test/ham'' example_dirs) ''data/'' = Inl OSError \<and>
   groups_match (unlistable_at ''data/test/spam'' example_dirs) ''data/'' \<and>
   listable (unlistable_at ''data/test/spam'' example_dirs) (path_join ''data/'' [''train'', ''ham'']) \<and>
   listable (unlistable_at ''data/test/spam'' example_dirs) (path_join ''data/'' [''train'', ''spam'']) \<and>
   listable (unlistable_at ''data/test/spam'' example_dirs) (path_join ''data/'' [''test'', ''ham'']) \<and>
   unlistable_at ''data/test/spam'' example_dirs (path_join ''data/'' [''test'', ''spam'']) = Inl OSError \<and>
   load_data (unlistable_at ''data/test/spam'' example_dirs) ''data/'' = Inl OSError"
proof -
  note t = load_data_layout
  have a: "load_data example_dirs ''data/'' =
     Inr ([''data/train/ham/ham1''], [''data/train/spam/spam1''], [],
          [''data/test/spam/new1''])"
    using t [of example_dirs "''data/''", THEN conjunct1, rule_format, OF example_layout]
    by (simp only: example_documents)
  have b0: "(\<exists>e. load_data extra_group_dirs ''data/'' = Inl e)"
    by (rule t [of extra_group_dirs "''data/''", THEN conjunct2, THEN conjunct1, rule_format,
        OF extra_group_no_layout])
  have c0: "missing_root_dirs ''data/'' = Inl OSError"
    by (simp add: missing_root_dirs_def)
  have c: "load_data missing_root_dirs ''data/'' = Inl OSError"
    by (rule t [of missing_root_dirs "''data/''", THEN conjunct2, THEN conjunct2, THEN conjunct1, rule_format, OF c0])
  have b: "load_data extra_group_dirs ''data/'' = Inl AssertionError"
    by (rule t [of extra_group_dirs "''data/''", THEN conjunct2, THEN conjunct2, THEN conjunct2, THEN conjunct1, rule_format,
        OF extra_group_names])
  have d: "load_data (unlistable_at ''data/test'' example_dirs) ''data/'' = Inl OSError"
    by (rule t [of "unlistable_at ''data/test'' example_dirs" "''data/''", THEN conjunct2, THEN conjunct2, THEN conjunct2, THEN conjunct2, THEN conjunct1, rule_format,
        OF unlistable_test_facts])
  have f: "load_data missing_subgroup_dirs ''data/'' = Inl AssertionError"
    by (rule t [of missing_subgroup_dirs "''data/''", THEN conjunct2, THEN conjunct2, THEN conjunct2, THEN conjunct2, THEN conjunct2, THEN conjunct1, rule_format,
        OF missing_subgroup_names])
  have g: "load_data (unlistable_at ''data/train'' missing_subgroup_dirs) ''data/'' = Inl AssertionError"
    by (rule t [of "unlistable_at ''data/train'' missing_subgroup_dirs" "''data/''", THEN conjunct2, THEN conjunct2, THEN conjunct2, THEN conjunct2, THEN conjunct2, THEN conjunct1, rule_format,
        OF overlap_facts(1,2)])
  have h: "load_data file_group_dirs ''data/'' = Inl OSError"
    by (rule t [of file_group_dirs "''data/''", THEN conjunct2, THEN conjunct2, THEN conjunct2, THEN conjunct2, THEN conjunct2, THEN conjunct2, THEN conjunct1, rule_format,
        OF file_group_facts])
  have i: "load_data extra_subgroup_dirs ''data/'' = Inl AssertionError"
    by (rule t [of extra_subgroup_dirs "''data/''", THEN conjunct2, THEN conjunct2, THEN conjunct2, THEN conjunct2, THEN conjunct2, THEN conjunct2, THEN conjunct2, THEN conjunct1, rule_format,
        OF extra_subgroup_names])
  have s0: "load_data (unlistable_at ''data/train/ham'' example_dirs) ''data/'' = Inl OSError"
    by (rule t [of "unlistable_at ''data/train/ham'' example_dirs" "''data/''", THEN conjunct2, THEN conjunct2, THEN conjunct2, THEN conjunct2, THEN conjunct2, THEN conjunct2, THEN conjunct2, THEN conjunct2, THEN conjunct1, rule_format,
        OF unlistable_train_ham_facts])
  have s1: "load_data (unlistable_at ''data/train/spam'' example_dirs) ''data/'' = Inl OSError"
    by (rule t [of "unlistable_at ''data/train/spam'' example_dirs" "''data/''", THEN conjunct2, THEN conjunct2, THEN conjunct2, THEN conjunct2, THEN conjunct2, THEN conjunct2, THEN conjunct2, THEN conjunct2, THEN conjunct2, THEN conjunct1, rule_format,
        OF unlistable_train_spam_facts])
  have s2: "load_data (unlistable_at ''data/test/ham'' example_dirs) ''data/'' = Inl OSError"
    by (rule t [of "unlistable_at ''data/test/ham'' example_dirs" "''data/''", THEN conjunct2, THEN conjunct2, THEN conjunct2, THEN conjunct2, THEN conjunct2, THEN conjunct2, THEN conjunct2, THEN conjunct2, THEN conjunct2, THEN conjunct2, THEN conjunct1, rule_format,
        OF unlistable_test_ham_facts])
  have s3: "load_data (unlistable_at ''data/test/spam'' example_dirs) ''data/'' = Inl OSError"
    by (rule t [of "unlistable_at ''data/test/spam'' example_dirs" "''data/''", THEN conjunct2, THEN conjunct2, THEN conjunct2, THEN conjunct2, THEN conjunct2, THEN conjunct2, THEN conjunct2, THEN conjunct2, THEN conjunct2, THEN conjunct2, THEN conjunct2, THEN conjunct1, rule_format,
        OF unlistable_test_spam_facts])
  from example_layout a extra_group_no_layout b0 c0
    c extra_group_names b unlistable_test_facts d
    missing_subgroup_names f overlap_facts g file_group_facts
    h extra_subgroup_names i unlistable_train_ham_facts s0
    unlistable_train_spam_facts s1 unlistable_test_ham_facts s2 unlistable_test_spam_facts
    s3
  show ?thesis by (intro conjI)
qed

text \<open>
  The failure is not always the failed \<open>assert\<close>: without a root directory, and with a
  plain file in the place of the group \<open>train\<close>, the layout is not the expected one and
  \<open>load_data\<close> fails with the error of \<open>os.listdir\<close>.
\<close>

theorem load_data_os_error_counterexample:
  "\<not> corpus_layout missing_root_dirs ''data/'' \<and>
   load_data missing_root_dirs ''data/'' = Inl OSError \<and>
   names_are file_group_dirs ''data/'' [''train'', ''test''] \<and>
   \<not> corpus_layout file_group_dirs ''data/'' \<and>
   load_data file_group_dirs ''data/'' = Inl OSError \<and>
   OSError \<noteq> AssertionError"
proof (intro conjI)
  show "\<not> corpus_layout missing_root_dirs ''data/''"
    by (simp add: corpus_layout_def names_are_def missing_root_dirs_def)
  show "load_data missing_root_dirs ''data/'' = Inl OSError"
    by (simp add: load_data_def missing_root_dirs_def)
  show "names_are file_group_dirs ''data/'' [''train'', ''test'']"
    by (simp add: names_are_def file_group_dirs_def example_dirs_def)
  show "\<not> corpus_layout file_group_dirs ''data/''"
    by (simp add: corpus_layout_def names_are_def file_group_dirs_def example_paths)
  show "load_data file_group_dirs ''data/'' = Inl OSError"
    by (simp add: load_data_def file_group_dirs_def example_dirs_def example_paths
        insert_commute)
  show "OSError \<noteq> AssertionError"
    by simp
qed

end
